theory Spec2Isabelle
  imports Complex_Main
begin

section \<open>JavaScript strings\<close>

text \<open>
  A JavaScript string is a sequence of UTF-16 code units. The model writes it as a
  \<open>string\<close>, each \<open>char\<close> standing for the code unit of the same number (0 to 255, the
  Latin-1 range); strings with code units above 255 are outside the model. On that range
  \<open>String.prototype.toLowerCase\<close> maps A-Z and the accented capitals 0xC0-0xDE (0xD7, the
  multiplication sign, apart) to the letter 32 places later and leaves the rest alone;
  \<open>String.prototype.trim\<close> strips TAB, LF, VT, FF, CR, SP and NBSP from both ends.
\<close>

definition toLowerCase_unit :: "char \<Rightarrow> char" where
  "toLowerCase_unit c =
     (let n = (of_char c :: nat)
      in if (65 \<le> n \<and> n \<le> 90) \<or> (192 \<le> n \<and> n \<le> 222 \<and> n \<noteq> 215)
         then char_of (n + 32) else c)"

definition toLowerCase :: "string \<Rightarrow> string" where
  "toLowerCase s = map toLowerCase_unit s"

definition isWhiteSpace :: "char \<Rightarrow> bool" where
  "isWhiteSpace c = ((of_char c :: nat) \<in> {9, 10, 11, 12, 13, 32, 160})"

definition trim :: "string \<Rightarrow> string" where
  "trim s = rev (dropWhile isWhiteSpace (rev (dropWhile isWhiteSpace s)))"

fun startsWith :: "string \<Rightarrow> string \<Rightarrow> bool" where
  "startsWith s [] = True"
| "startsWith [] (p # ps) = False"
| "startsWith (c # cs) (p # ps) = (c = p \<and> startsWith cs ps)"

text \<open>\<open>s.includes(p)\<close>: \<open>p\<close> occurs in \<open>s\<close> as a run of consecutive code units.\<close>

fun js_includes :: "string \<Rightarrow> string \<Rightarrow> bool" where
  "js_includes [] p = (p = [])"
| "js_includes (c # cs) p = (startsWith (c # cs) p \<or> js_includes cs p)"

text \<open>\<open>s.substring(0, n)\<close> for \<open>n\<close> a natural number.\<close>

definition substring0 :: "string \<Rightarrow> nat \<Rightarrow> string" where
  "substring0 s n = take n s"

section \<open>JavaScript values read from JSON\<close>

text \<open>
  The values \<open>JSON.parse\<close> returns, and \<open>undefined\<close> for a property read that finds
  nothing. A number is a double that \<open>JSON.parse\<close> rounded from a literal: a rational or
  an infinity (a literal such as 1e999), never NaN. An object is the list of its own
  properties, one entry per key.
\<close>

datatype jsnumber = Finite rat | PlusInfinity | MinusInfinity

datatype jsval =
    JUndefined
  | JNull
  | JBool bool
  | JNum jsnumber
  | JStr string
  | JArr "jsval list"
  | JObj "(string \<times> jsval) list"

text \<open>ToBoolean: what \<open>v || w\<close> tests.\<close>

fun truthy :: "jsval \<Rightarrow> bool" where
  "truthy JUndefined = False"
| "truthy JNull = False"
| "truthy (JBool b) = b"
| "truthy (JNum n) = (n \<noteq> Finite 0)"
| "truthy (JStr s) = (s \<noteq> [])"
| "truthy (JArr xs) = True"
| "truthy (JObj kvs) = True"

text \<open>
  What \<open>?.\<close> tests before it reads: a value that is \<open>null\<close> or \<open>undefined\<close> is a
  missing link of the path.
\<close>

definition nullish :: "jsval \<Rightarrow> bool" where
  "nullish v = (v = JUndefined \<or> v = JNull)"

text \<open>
  \<open>v?.k\<close> for a property name \<open>k\<close> that no built-in prototype defines, as is the case of
  the four names \<open>queryGemini\<close> reads (candidates, content, parts, text): \<open>undefined\<close> when
  \<open>v\<close> is \<open>null\<close> or \<open>undefined\<close>, the own property of an object, and \<open>undefined\<close> on
  every other value (a string, a number, a boolean and an array have no such property).
\<close>

fun opt_member :: "jsval \<Rightarrow> string \<Rightarrow> jsval" where
  "opt_member (JObj kvs) k = (case map_of kvs k of Some v \<Rightarrow> v | None \<Rightarrow> JUndefined)"
| "opt_member v k = JUndefined"

text \<open>
  \<open>v?.[0]\<close>: the first element of an array, the first code unit of a string (as a string
  of length one), the own property "0" of an object, and \<open>undefined\<close> otherwise.
\<close>

fun opt_first :: "jsval \<Rightarrow> jsval" where
  "opt_first (JArr xs) = (case xs of [] \<Rightarrow> JUndefined | x # _ \<Rightarrow> x)"
| "opt_first (JStr s) = (case s of [] \<Rightarrow> JUndefined | c # _ \<Rightarrow> JStr [c])"
| "opt_first (JObj kvs) = (case map_of kvs ''0'' of Some v \<Rightarrow> v | None \<Rightarrow> JUndefined)"
| "opt_first v = JUndefined"

section \<open>The remote API and the process's effects\<close>

text \<open>
  \<open>fetch\<close> is the only contact with the network. The environment holds what the program
  cannot decide: the remote's answer to a request (which may depend on the requests sent
  before) and the runtime's \<open>JSON.parse\<close> (\<open>None\<close> when it throws a SyntaxError). A request
  is kept as its URL and the prompt that \<open>JSON.stringify\<close> puts in
  \<open>contents[0].parts[0].text\<close> of the body. A response is \<open>ok\<close> when its status is in
  200..299. A \<open>fetch\<close> (or the reading of the body) may also reject.
\<close>

record request =
  url :: string
  prompt_text :: string

record response =
  status :: nat
  statusText :: string
  body :: string

definition ok :: "response \<Rightarrow> bool" where
  "ok r = (200 \<le> status r \<and> status r \<le> 299)"

datatype fetch_outcome = Rejected string | Resolved response

record env =
  remote :: "request list \<Rightarrow> request \<Rightarrow> fetch_outcome"
  JSON_parse :: "string \<Rightarrow> jsval option"

text \<open>
  What a call can throw. \<open>RemoteError\<close> stands for
  \<open>Error("Gemini API error: <status> <statusText>\n<body>")\<close> and keeps the three parts;
  \<open>ParseError\<close> for \<open>Error("Failed to parse Gemini response: <text>")\<close> and keeps the
  text; \<open>SyntaxError\<close> is the one \<open>JSON.parse\<close> throws; \<open>TypeError\<close> is the runtime's
  (here: the operand of \<open>new\<close> is not a constructor); \<open>FetchError\<close> is a rejected
  \<open>fetch\<close>.
\<close>

datatype error =
    FetchError string
  | RemoteError nat string string
  | ParseError string
  | SyntaxError
  | TypeError

text \<open>
  What the process prints and logs, as events that keep the payload and drop the
  decoration (colours, emoji, the date in front of a log line).
\<close>

datatype event =
    FallbackNotice string
  | ContextCleared
  | Reply jsval
  | ErrorMessage error
  | Bye
  | LogQ string
  | LogA jsval

record world =
  sent :: "request list"
  console :: "event list"
  logfile :: "event list"

definition fetch :: "env \<Rightarrow> request \<Rightarrow> world \<Rightarrow> fetch_outcome \<times> world" where
  "fetch e req w = (remote e (sent w) req, w\<lparr>sent := sent w @ [req]\<rparr>)"

definition console_log :: "event \<Rightarrow> world \<Rightarrow> world" where
  "console_log ev w = w\<lparr>console := console w @ [ev]\<rparr>"

definition logLine :: "event \<Rightarrow> world \<Rightarrow> world" where
  "logLine ev w = w\<lparr>logfile := logfile w @ [ev]\<rparr>"

section \<open>The dispatcher with the model fallback\<close>

definition STABLE_FALLBACK_MODEL :: string where
  "STABLE_FALLBACK_MODEL = ''gemini-2.5-flash''"

definition endpoint_of :: "string \<Rightarrow> string \<Rightarrow> string" where
  "endpoint_of model apiKey =
     ''https://generativelanguage.googleapis.com/v1beta/models/'' @ model
       @ '':generateContent?key='' @ apiKey"

definition no_text_placeholder :: string where
  "no_text_placeholder =
     ''(No text response from Gemini. The API may have returned a blocked or empty response.)''"

text \<open>
  \<open>data?.candidates?.[0]?.content?.parts?.[0]?.text\<close>.
\<close>

definition extract_text :: "jsval \<Rightarrow> jsval" where
  "extract_text data =
     opt_member (opt_first (opt_member (opt_member (opt_first (opt_member data ''candidates''))
       ''content'') ''parts'')) ''text''"

text \<open>
  \<open>queryGemini\<close> of the command-line client with the fallback (the second program of
  \<open>src/ui.js\<close>, lines 197-243). The \<open>catch\<close> of its last
  block runs \<open>throw new new Error(...)\<close>: the inner \<open>new Error(...)\<close> builds an Error
  object and the outer \<open>new\<close>, applied to that object, throws a TypeError, since an Error
  object is not a constructor; the Error with the "Failed to parse" message is never
  thrown.
\<close>

function queryGemini ::
  "env \<Rightarrow> string \<Rightarrow> string \<Rightarrow> string \<Rightarrow> world \<Rightarrow> (error + jsval) \<times> world" where
  "queryGemini e model prompt apiKey w =
     (let endpoint = endpoint_of model apiKey;
          currentModel =
            (if toLowerCase model \<noteq> STABLE_FALLBACK_MODEL
             then (if js_includes (toLowerCase model) ''pro''
                      \<and> \<not> js_includes (toLowerCase model) ''2.5''
                   then ''gemini-2.5-pro'' else model)
             else model);
          endpoint = (if currentModel \<noteq> model then endpoint_of currentModel apiKey else endpoint);
          (res, w1) = fetch e \<lparr>url = endpoint, prompt_text = prompt\<rparr> w
      in case res of
           Rejected msg \<Rightarrow> (Inl (FetchError msg), w1)
         | Resolved r \<Rightarrow>
             if \<not> ok r then
               (if status r = 404 \<and> currentModel \<noteq> STABLE_FALLBACK_MODEL
                then queryGemini e STABLE_FALLBACK_MODEL prompt apiKey
                       (console_log (FallbackNotice model) w1)
                else (Inl (RemoteError (status r) (statusText r) (body r)), w1))
             else
               (case JSON_parse e (body r) of
                  None \<Rightarrow> (Inl TypeError, w1)
                | Some data \<Rightarrow>
                    (let t = extract_text data
                     in (Inr (if truthy t then t else JStr no_text_placeholder), w1))))"
  by pat_completeness auto
termination
proof (relation "measure (\<lambda>(e, model, prompt, apiKey, w).
                   if model = STABLE_FALLBACK_MODEL then 0 else 1)")
  show "wf (measure (\<lambda>(e, model, prompt, apiKey, w).
              if model = STABLE_FALLBACK_MODEL then 0 else (1::nat)))"
    by simp
next
  fix e :: env and model prompt apiKey :: string and w :: world
    and x xa xb :: string and xc :: "fetch_outcome \<times> world" and xd :: fetch_outcome
    and y :: world and x2 :: response
  assume "xa = (if toLowerCase model \<noteq> STABLE_FALLBACK_MODEL
                then if js_includes (toLowerCase model) ''pro''
                        \<and> \<not> js_includes (toLowerCase model) ''2.5''
                     then ''gemini-2.5-pro'' else model
                else model)"
    and "status x2 = 404 \<and> xa \<noteq> STABLE_FALLBACK_MODEL"
  moreover have "toLowerCase STABLE_FALLBACK_MODEL = STABLE_FALLBACK_MODEL"
    by (simp add: toLowerCase_def toLowerCase_unit_def STABLE_FALLBACK_MODEL_def)
  ultimately have "model \<noteq> STABLE_FALLBACK_MODEL"
    by (auto split: if_splits)
  then show "((e, STABLE_FALLBACK_MODEL, prompt, apiKey, console_log (FallbackNotice model) y),
              e, model, prompt, apiKey, w)
             \<in> measure (\<lambda>(e, model, prompt, apiKey, w).
                  if model = STABLE_FALLBACK_MODEL then 0 else 1)"
    by simp
qed

declare queryGemini.simps [simp del]

section \<open>The dispatchers without fallback\<close>

text \<open>
  \<open>queryGemini\<close> of the themed command-line client (\<open>src/ui.jsx\<close>, lines 100-114):
  one attempt, an Error on every
  status that is not \<open>ok\<close>, and \<open>JSON.parse\<close> outside any \<open>try\<close>, so that its
  SyntaxError is what the caller sees.
\<close>

definition no_response :: string where
  "no_response = ''(no response)''"

definition queryGemini_themed ::
  "env \<Rightarrow> string \<Rightarrow> string \<Rightarrow> string \<Rightarrow> world \<Rightarrow> (error + jsval) \<times> world" where
  "queryGemini_themed e model prompt apiKey w =
     (let endpoint = endpoint_of model apiKey;
          (res, w1) = fetch e \<lparr>url = endpoint, prompt_text = prompt\<rparr> w
      in case res of
           Rejected msg \<Rightarrow> (Inl (FetchError msg), w1)
         | Resolved r \<Rightarrow>
             if \<not> ok r then (Inl (RemoteError (status r) (statusText r) (body r)), w1)
             else
               (case JSON_parse e (body r) of
                  None \<Rightarrow> (Inl SyntaxError, w1)
                | Some data \<Rightarrow>
                    (let t = extract_text data
                     in (Inr (if truthy t then t else JStr no_response), w1))))"

text \<open>
  \<open>queryGemini\<close> of the fullscreen front-end (the first program of \<open>src/ui.js\<close>,
  lines 15-26): a fixed model, the key of the process
  environment, no look at the status, and \<open>res.json()\<close>, which rejects on a body
  that is not JSON (kept here as the SyntaxError of \<open>JSON.parse\<close>).
\<close>

definition MODEL :: string where
  "MODEL = ''gemini-2.0-flash''"

definition queryGemini_ui :: "env \<Rightarrow> string \<Rightarrow> string \<Rightarrow> world \<Rightarrow> (error + jsval) \<times> world" where
  "queryGemini_ui e API_KEY prompt w =
     (let endpoint = endpoint_of MODEL API_KEY;
          (res, w1) = fetch e \<lparr>url = endpoint, prompt_text = prompt\<rparr> w
      in case res of
           Rejected msg \<Rightarrow> (Inl (FetchError msg), w1)
         | Resolved r \<Rightarrow>
             (case JSON_parse e (body r) of
                None \<Rightarrow> (Inl SyntaxError, w1)
              | Some data \<Rightarrow>
                  (let t = extract_text data
                   in (Inr (if truthy t then t else JStr no_response), w1))))"

section \<open>The persona store\<close>

text \<open>
  The personalities object is built by \<open>{ ...DEFAULT_PERSONALITIES, ...extra }\<close>: a plain
  object whose own properties are the built-in personas overridden and extended by the
  entries of the user's file. The file is taken to hold what the README documents, an
  object from identifiers to instruction texts (one entry per key); a file that is
  missing, unreadable or not JSON leaves \<open>extra\<close> empty, and is \<open>None\<close> here.

  \<open>personalities[style]\<close> is a property read on a plain object: it finds an own
  property, and otherwise a member of \<open>Object.prototype\<close>, which every plain object
  inherits from. Those members are functions, but for \<open>__proto__\<close>, whose getter returns
  \<open>Object.prototype\<close> itself: all of them truthy.
\<close>

definition DEFAULT_PERSONALITIES :: "(string \<times> string) list" where
  "DEFAULT_PERSONALITIES =
     [(''default'', ''You are a helpful, concise assistant. Prefer short, actionable answers with examples when relevant.''),
      (''sarcastic'', ''You're a witty, sarcastic assistant. Roast gently but always provide correct, practical help.''),
      (''motivational'', ''You're a high-energy coach. Be supportive, positive, and give step-by-step guidance.''),
      (''hacker'', ''You're a cool, terse, command-line-loving hacker mentor. Prefer shell snippets and minimal prose.''),
      (''teacher'', ''You're a patient teacher. Explain concepts like to a beginner, with analogies and checks for understanding.'')]"

definition loadPersonalities :: "(string \<times> string) list option \<Rightarrow> (string \<rightharpoonup> string)" where
  "loadPersonalities user_file =
     (let extra = (case user_file of None \<Rightarrow> [] | Some entries \<Rightarrow> entries)
      in map_of DEFAULT_PERSONALITIES ++ map_of extra)"

definition Object_prototype_members :: "string list" where
  "Object_prototype_members =
     [''constructor'', ''__defineGetter__'', ''__defineSetter__'', ''hasOwnProperty'',
      ''__lookupGetter__'', ''__lookupSetter__'', ''isPrototypeOf'', ''propertyIsEnumerable'',
      ''toString'', ''valueOf'', ''__proto__'', ''toLocaleString'']"

datatype property = Own string | Inherited string

definition get_property :: "(string \<rightharpoonup> string) \<Rightarrow> string \<Rightarrow> property option" where
  "get_property obj k =
     (case obj k of
        Some s \<Rightarrow> Some (Own s)
      | None \<Rightarrow> if k \<in> set Object_prototype_members then Some (Inherited k) else None)"

fun truthy_property :: "property option \<Rightarrow> bool" where
  "truthy_property None = False"
| "truthy_property (Some (Own s)) = (s \<noteq> [])"
| "truthy_property (Some (Inherited k)) = True"

text \<open>
  What a template literal makes of the value: a string as it is, \<open>undefined\<close> as the
  word, a built-in function as \<open>function <name>() { [native code] }\<close> (the function found
  under \<open>constructor\<close> is named \<open>Object\<close>, the others as their property), and
  \<open>Object.prototype\<close> as \<open>[object Object]\<close>.
\<close>

fun template_string :: "property option \<Rightarrow> string" where
  "template_string None = ''undefined''"
| "template_string (Some (Own s)) = s"
| "template_string (Some (Inherited k)) =
     (if k = ''__proto__'' then ''[object Object]''
      else ''function '' @ (if k = ''constructor'' then ''Object'' else k) @ ''() { [native code] }'')"

definition additional_rules :: string where
  "additional_rules =
     ''\<newline>Additional rules:\<newline>- Use bullet points when helpful.\<newline>- Provide runnable examples when code is requested.\<newline>- Keep answers short unless --long is used.''"

definition buildSystemPrompt :: "string \<Rightarrow> (string \<rightharpoonup> string) \<Rightarrow> string" where
  "buildSystemPrompt style personalities =
     (let persona = (if truthy_property (get_property personalities style)
                     then get_property personalities style
                     else get_property personalities ''default'')
      in template_string persona @ additional_rules)"

section \<open>The interactive loop\<close>

text \<open>
  \<open>chatMode\<close> (\<open>src/ui.js\<close>, lines 267-308, and \<open>src/ui.jsx\<close>, lines 144-195) keeps
  one variable, \<open>context\<close> (here \<open>ctx\<close>), and handles each line of
  input with the same handler. The two command-line clients have the same handler, up
  to the theme of what is printed, each around its own \<open>queryGemini\<close>, which is the
  argument \<open>dispatch\<close> here. A line is handled to its end before the next one is read;
  once the interface is closed the process exits and no line is handled any more.
  Appending to the log file is taken to succeed. The key comes from \<open>getAPIKey\<close> and
  the personalities from \<open>loadPersonalities\<close>, both before the first line.
\<close>

record session =
  ctx :: string
  closed :: bool
  wld :: world

definition chatMode_start :: "string \<Rightarrow> (string \<rightharpoonup> string) \<Rightarrow> world \<Rightarrow> session" where
  "chatMode_start style personalities w =
     \<lparr>ctx = buildSystemPrompt style personalities, closed = False, wld = w\<rparr>"

definition on_line ::
  "(string \<Rightarrow> string \<Rightarrow> string \<Rightarrow> world \<Rightarrow> (error + jsval) \<times> world) \<Rightarrow>
   string \<Rightarrow> bool \<Rightarrow> string \<Rightarrow> string \<Rightarrow> (string \<rightharpoonup> string) \<Rightarrow> string \<Rightarrow> session \<Rightarrow> session" where
  "on_line dispatch style long model apiKey personalities line s =
     (let t = trim line
      in if t = [] then s
         else if t = '':exit'' then s\<lparr>closed := True, wld := console_log Bye (wld s)\<rparr>
         else if t = '':clear'' then
           s\<lparr>ctx := buildSystemPrompt style personalities,
             wld := console_log ContextCleared (wld s)\<rparr>
         else
           (let fullPrompt = ctx s @ ''\<newline>User: '' @ t
                  @ (if long then ''\<newline>Be detailed and thorough.'' else []);
                (res, w1) = dispatch model fullPrompt apiKey (wld s)
            in case res of
                 Inr answer \<Rightarrow>
                   s\<lparr>wld := logLine (LogA answer) (logLine (LogQ t) (console_log (Reply answer) w1))\<rparr>
               | Inl err \<Rightarrow> s\<lparr>wld := console_log (ErrorMessage err) w1\<rparr>))"

fun on_lines ::
  "(string \<Rightarrow> string \<Rightarrow> string \<Rightarrow> world \<Rightarrow> (error + jsval) \<times> world) \<Rightarrow>
   string \<Rightarrow> bool \<Rightarrow> string \<Rightarrow> string \<Rightarrow> (string \<rightharpoonup> string) \<Rightarrow> string list \<Rightarrow> session \<Rightarrow> session" where
  "on_lines dispatch style long model apiKey personalities [] s = s"
| "on_lines dispatch style long model apiKey personalities (line # rest) s =
     (if closed s then s
      else on_lines dispatch style long model apiKey personalities rest
             (on_line dispatch style long model apiKey personalities line s))"

text \<open>The loop of each client, from the start of the session.\<close>

definition chatMode ::
  "env \<Rightarrow> string \<Rightarrow> bool \<Rightarrow> string \<Rightarrow> string \<Rightarrow> (string \<rightharpoonup> string) \<Rightarrow> string list \<Rightarrow> world \<Rightarrow> session" where
  "chatMode e style long model apiKey personalities input_lines w =
     on_lines (queryGemini e) style long model apiKey personalities input_lines
       (chatMode_start style personalities w)"

definition chatMode_themed ::
  "env \<Rightarrow> string \<Rightarrow> bool \<Rightarrow> string \<Rightarrow> string \<Rightarrow> (string \<rightharpoonup> string) \<Rightarrow> string list \<Rightarrow> world \<Rightarrow> session" where
  "chatMode_themed e style long model apiKey personalities input_lines w =
     on_lines (queryGemini_themed e) style long model apiKey personalities input_lines
       (chatMode_start style personalities w)"

text \<open>The requests a call or a run adds to those sent before.\<close>

definition requests_since :: "world \<Rightarrow> world \<Rightarrow> request list" where
  "requests_since w w' = drop (length (sent w)) (sent w')"

section \<open>The fullscreen front-end\<close>

text \<open>
  \<open>ChatUI\<close> (the first program of \<open>src/ui.js\<close>, lines 29-62) is a function
  component: React calls it at every render, and each call makes
  new closures \<open>handleSubmit\<close> and \<open>saveLog\<close> over the \<open>messages\<close> and \<open>input\<close> of that
  render. The effect that registers \<open>handleExit\<close> on SIGINT and on exit has the dependency
  list \<open>[]\<close>, so it runs once, after the first render; the \<open>saveLog\<close> it calls is the
  one of the first render, whose \<open>messages\<close> is the initial state of \<open>useState([])\<close>.
  The field \<open>exit_messages\<close> is that binding: set at the mount and by nothing else. The
  state setters are \<open>setMessages(m => [...m, msg])\<close>, \<open>setInput\<close> and \<open>setLoading\<close>.
  The field \<open>text\<close> of a message is \<open>content\<close> here.

  A log file \<open>ui_chat_<t>.txt\<close> is kept under its number \<open>t\<close>, the value of
  \<open>Date.now()\<close> at the save, and its content as the list of messages that
  \<open>messages.map(m => `${m.role}: ${m.text}`).join("\n\n")\<close> renders: the empty list is
  the empty file. \<open>writeFileSync\<close> replaces the content of the file.
\<close>

record message =
  role :: string
  content :: jsval

record chatui =
  messages :: "message list"
  input :: string
  loading :: bool
  exit_messages :: "message list"

definition ChatUI_mount :: chatui where
  "ChatUI_mount =
     (let first_render = \<lparr>messages = [], input = [], loading = False, exit_messages = []\<rparr>
      in first_render\<lparr>exit_messages := messages first_render\<rparr>)"

definition setInput :: "string \<Rightarrow> chatui \<Rightarrow> chatui" where
  "setInput v ui = ui\<lparr>input := v\<rparr>"

definition handleSubmit :: "env \<Rightarrow> string \<Rightarrow> chatui \<times> world \<Rightarrow> chatui \<times> world" where
  "handleSubmit e API_KEY uw =
     (let (ui, w) = uw
      in if trim (input ui) = [] then (ui, w)
         else
           (let userMsg = \<lparr>role = ''user'', content = JStr (input ui)\<rparr>;
                ui1 = ui\<lparr>messages := messages ui @ [userMsg], input := [], loading := True\<rparr>;
                (res, w1) = queryGemini_ui e API_KEY (input ui) w
            in case res of
                 Inl err \<Rightarrow> (ui1, w1)
               | Inr reply \<Rightarrow>
                   (ui1\<lparr>messages := messages ui1 @ [\<lparr>role = ''assistant'', content = reply\<rparr>],
                        loading := False\<rparr>, w1)))"

definition saveLog :: "message list \<Rightarrow> nat \<Rightarrow> (nat \<rightharpoonup> message list) \<Rightarrow> (nat \<rightharpoonup> message list)" where
  "saveLog msgs now files = files(now \<mapsto> msgs)"

definition handleExit :: "chatui \<Rightarrow> nat \<Rightarrow> (nat \<rightharpoonup> message list) \<Rightarrow> (nat \<rightharpoonup> message list)" where
  "handleExit ui now files = saveLog (exit_messages ui) now files"

section \<open>Example environments\<close>

text \<open>
  Remotes and a parser for the concrete runs below: a body of the shape the API
  documents with the value \<open>JSON.parse\<close> gives for it, a remote that knows only the
  stable model, one that is out of service, one that knows no model, one that answers
  with a page of HTML, one that answers with an empty object, and one that always answers.
\<close>

definition example_body :: string where
  "example_body = ''{\"candidates\":[{\"content\":{\"parts\":[{\"text\":\"Hello!\"}]}}]}''"

definition example_data :: jsval where
  "example_data =
     JObj [(''candidates'',
       JArr [JObj [(''content'', JObj [(''parts'', JArr [JObj [(''text'', JStr ''Hello!'')]])])]])]"

definition example_parse :: "string \<Rightarrow> jsval option" where
  "example_parse s =
     (if s = example_body then Some example_data
      else if s = ''{}'' then Some (JObj [])
      else None)"

definition answer_ok :: fetch_outcome where
  "answer_ok = Resolved \<lparr>status = 200, statusText = ''OK'', body = example_body\<rparr>"

definition answer_not_found :: fetch_outcome where
  "answer_not_found = Resolved \<lparr>status = 404, statusText = ''Not Found'', body = ''{}''\<rparr>"

definition env_stable_only :: env where
  "env_stable_only =
     \<lparr>remote = (\<lambda>before req.
         if url req = endpoint_of STABLE_FALLBACK_MODEL ''KEY'' then answer_ok
         else answer_not_found),
      JSON_parse = example_parse\<rparr>"

definition env_unavailable :: env where
  "env_unavailable =
     \<lparr>remote = (\<lambda>before req.
         Resolved \<lparr>status = 503, statusText = ''Service Unavailable'', body = []\<rparr>),
      JSON_parse = example_parse\<rparr>"

definition env_no_model :: env where
  "env_no_model = \<lparr>remote = (\<lambda>before req. answer_not_found), JSON_parse = example_parse\<rparr>"

definition env_html :: env where
  "env_html =
     \<lparr>remote = (\<lambda>before req.
         Resolved \<lparr>status = 200, statusText = ''OK'', body = ''<html>busy</html>''\<rparr>),
      JSON_parse = example_parse\<rparr>"

definition env_empty :: env where
  "env_empty =
     \<lparr>remote = (\<lambda>before req. Resolved \<lparr>status = 200, statusText = ''OK'', body = ''{}''\<rparr>),
      JSON_parse = example_parse\<rparr>"

definition env_ok :: env where
  "env_ok = \<lparr>remote = (\<lambda>before req. answer_ok), JSON_parse = example_parse\<rparr>"

definition world0 :: world where
  "world0 = \<lparr>sent = [], console = [], logfile = []\<rparr>"


section \<open>The string functions\<close>

text \<open>\<open>startsWith\<close> and \<open>js_includes\<close> decide what their names say.\<close>

lemma startsWith_iff: "startsWith s p \<longleftrightarrow> (\<exists>b. s = p @ b)"
  by (induction s p rule: startsWith.induct) auto

lemma js_includes_iff: "js_includes s p \<longleftrightarrow> (\<exists>a b. s = a @ p @ b)"
proof (induction s)
  case Nil
  then show ?case by auto
next
  case (Cons c cs)
  show ?case
  proof
    assume "js_includes (c # cs) p"
    then consider "startsWith (c # cs) p" | "js_includes cs p" by auto
    then show "\<exists>a b. c # cs = a @ p @ b"
    proof cases
      case 1
      then obtain b where "c # cs = p @ b" by (auto simp: startsWith_iff)
      then have "c # cs = [] @ p @ b" by simp
      then show ?thesis by blast
    next
      case 2
      with Cons obtain a b where "cs = a @ p @ b" by auto
      then have "c # cs = (c # a) @ p @ b" by simp
      then show ?thesis by blast
    qed
  next
    assume "\<exists>a b. c # cs = a @ p @ b"
    then obtain a b where ab: "c # cs = a @ p @ b" by auto
    show "js_includes (c # cs) p"
    proof (cases a)
      case Nil
      with ab have "startsWith (c # cs) p" by (auto simp: startsWith_iff)
      then show ?thesis by simp
    next
      case (Cons x xs)
      with ab have "cs = xs @ p @ b" by simp
      with Cons.IH have "js_includes cs p" by auto
      then show ?thesis by simp
    qed
  qed
qed

section \<open>The dispatcher: one attempt, and one more\<close>

lemma toLowerCase_STABLE: "toLowerCase STABLE_FALLBACK_MODEL = STABLE_FALLBACK_MODEL"
  by (simp add: toLowerCase_def toLowerCase_unit_def STABLE_FALLBACK_MODEL_def)

lemma queryGemini_on_fallback:
  "queryGemini e STABLE_FALLBACK_MODEL prompt apiKey w =
     (let req = \<lparr>url = endpoint_of STABLE_FALLBACK_MODEL apiKey, prompt_text = prompt\<rparr>;
          w1 = w\<lparr>sent := sent w @ [req]\<rparr>
      in case remote e (sent w) req of
           Rejected msg \<Rightarrow> (Inl (FetchError msg), w1)
         | Resolved r \<Rightarrow>
             if \<not> ok r then (Inl (RemoteError (status r) (statusText r) (body r)), w1)
             else
               (case JSON_parse e (body r) of
                  None \<Rightarrow> (Inl TypeError, w1)
                | Some data \<Rightarrow>
                    (Inr (if truthy (extract_text data) then extract_text data
                          else JStr no_text_placeholder), w1)))"
  by (subst queryGemini.simps)
     (simp add: toLowerCase_STABLE fetch_def Let_def split: fetch_outcome.splits option.splits)

lemma queryGemini_unfold:
  assumes cm: "cm = (if toLowerCase model \<noteq> STABLE_FALLBACK_MODEL
             then (if js_includes (toLowerCase model) ''pro''
                      \<and> \<not> js_includes (toLowerCase model) ''2.5''
                   then ''gemini-2.5-pro'' else model)
             else model)"
  shows "queryGemini e model prompt apiKey w =
     (let req = \<lparr>url = endpoint_of cm apiKey, prompt_text = prompt\<rparr>;
          w1 = w\<lparr>sent := sent w @ [req]\<rparr>
      in case remote e (sent w) req of
           Rejected msg \<Rightarrow> (Inl (FetchError msg), w1)
         | Resolved r \<Rightarrow>
             if \<not> ok r then
               (if status r = 404 \<and> cm \<noteq> STABLE_FALLBACK_MODEL
                then queryGemini e STABLE_FALLBACK_MODEL prompt apiKey
                       (console_log (FallbackNotice model) w1)
                else (Inl (RemoteError (status r) (statusText r) (body r)), w1))
             else
               (case JSON_parse e (body r) of
                  None \<Rightarrow> (Inl TypeError, w1)
                | Some data \<Rightarrow>
                    (let t = extract_text data
                     in (Inr (if truthy t then t else JStr no_text_placeholder), w1))))"
proof -
  have ep: "(if cm \<noteq> model then endpoint_of cm apiKey else endpoint_of model apiKey)
             = endpoint_of cm apiKey"
    by simp
  show ?thesis
    by (subst queryGemini.simps) (simp only: Let_def cm [symmetric] ep fetch_def prod.case)
qed

text \<open>The requests of the call on the stable model: exactly one.\<close>

lemma sent_on_fallback:
  "sent (snd (queryGemini e STABLE_FALLBACK_MODEL prompt apiKey w)) =
     sent w @ [\<lparr>url = endpoint_of STABLE_FALLBACK_MODEL apiKey, prompt_text = prompt\<rparr>]"
  by (simp add: queryGemini_on_fallback Let_def split: fetch_outcome.splits option.splits)

lemma sent_console_log [simp]: "sent (console_log ev w) = sent w"
  by (simp add: console_log_def)

lemma sent_logLine [simp]: "sent (logLine ev w) = sent w"
  by (simp add: logLine_def)

text \<open>The requests of any call: the first attempt, and the retry when there is one.\<close>

lemma sent_queryGemini:
  assumes cm: "cm = (if toLowerCase model \<noteq> STABLE_FALLBACK_MODEL
             then (if js_includes (toLowerCase model) ''pro''
                      \<and> \<not> js_includes (toLowerCase model) ''2.5''
                   then ''gemini-2.5-pro'' else model)
             else model)"
  shows "sent (snd (queryGemini e model prompt apiKey w)) =
     sent w @ \<lparr>url = endpoint_of cm apiKey, prompt_text = prompt\<rparr> #
       (case remote e (sent w) \<lparr>url = endpoint_of cm apiKey, prompt_text = prompt\<rparr> of
          Rejected msg \<Rightarrow> []
        | Resolved r \<Rightarrow>
            if status r = 404 \<and> cm \<noteq> STABLE_FALLBACK_MODEL
            then [\<lparr>url = endpoint_of STABLE_FALLBACK_MODEL apiKey, prompt_text = prompt\<rparr>]
            else [])"
  by (simp add: queryGemini_unfold [OF cm] sent_on_fallback Let_def ok_def
           split: fetch_outcome.splits option.splits)

lemma requests_since_append [simp]:
  "sent w' = sent w @ rs \<Longrightarrow> requests_since w w' = rs"
  by (simp add: requests_since_def)

text \<open>
  C2. A model name whose lower-cased form is not the stable fallback name and contains
  "pro" but not "2.5" is replaced by gemini-2.5-pro in the URL of the first request;
  every other model name stands in that URL as it was given.
\<close>

theorem first_attempt_model_segment:
  "(toLowerCase model \<noteq> STABLE_FALLBACK_MODEL \<and> js_includes (toLowerCase model) ''pro''
      \<and> \<not> js_includes (toLowerCase model) ''2.5''
    \<longrightarrow> hd (requests_since w (snd (queryGemini e model prompt apiKey w))) =
          \<lparr>url = ''https://generativelanguage.googleapis.com/v1beta/models/''
                   @ ''gemini-2.5-pro'' @ '':generateContent?key='' @ apiKey,
           prompt_text = prompt\<rparr>)
   \<and> (\<not> (toLowerCase model \<noteq> STABLE_FALLBACK_MODEL \<and> js_includes (toLowerCase model) ''pro''
          \<and> \<not> js_includes (toLowerCase model) ''2.5'')
    \<longrightarrow> hd (requests_since w (snd (queryGemini e model prompt apiKey w))) =
          \<lparr>url = ''https://generativelanguage.googleapis.com/v1beta/models/''
                   @ model @ '':generateContent?key='' @ apiKey,
           prompt_text = prompt\<rparr>)
   \<and> requests_since w (snd (queryGemini e model prompt apiKey w)) \<noteq> []"
proof -
  define cm where "cm = (if toLowerCase model \<noteq> STABLE_FALLBACK_MODEL
             then (if js_includes (toLowerCase model) ''pro''
                      \<and> \<not> js_includes (toLowerCase model) ''2.5''
                   then ''gemini-2.5-pro'' else model)
             else model)"
  note s = sent_queryGemini [OF cm_def, of e prompt apiKey w]
  have "requests_since w (snd (queryGemini e model prompt apiKey w)) \<noteq> []"
       "hd (requests_since w (snd (queryGemini e model prompt apiKey w))) =
          \<lparr>url = endpoint_of cm apiKey, prompt_text = prompt\<rparr>"
    by (simp_all add: requests_since_append [OF s])
  then show ?thesis
    by (auto simp: cm_def endpoint_of_def)
qed

theorem first_attempt_model_segment_witness:
  "toLowerCase ''gemini-pro'' \<noteq> STABLE_FALLBACK_MODEL
   \<and> js_includes (toLowerCase ''gemini-pro'') ''pro''
   \<and> \<not> js_includes (toLowerCase ''gemini-pro'') ''2.5''
   \<and> url (hd (requests_since world0 (snd (queryGemini env_no_model ''gemini-pro'' ''hi'' ''KEY'' world0))))
       = ''https://generativelanguage.googleapis.com/v1beta/models/gemini-2.5-pro:generateContent?key=KEY''
   \<and> \<not> js_includes (toLowerCase ''Gemini-1.5-Flash'') ''pro''
   \<and> url (hd (requests_since world0
               (snd (queryGemini env_no_model ''Gemini-1.5-Flash'' ''hi'' ''KEY'' world0))))
       = ''https://generativelanguage.googleapis.com/v1beta/models/Gemini-1.5-Flash:generateContent?key=KEY''"
proof -
  have a: "toLowerCase ''gemini-pro'' \<noteq> STABLE_FALLBACK_MODEL
           \<and> js_includes (toLowerCase ''gemini-pro'') ''pro''
           \<and> \<not> js_includes (toLowerCase ''gemini-pro'') ''2.5''"
    by (simp add: toLowerCase_def toLowerCase_unit_def STABLE_FALLBACK_MODEL_def)
  have b: "\<not> js_includes (toLowerCase ''Gemini-1.5-Flash'') ''pro''"
    by (simp add: toLowerCase_def toLowerCase_unit_def)
  show ?thesis
    using a b
      first_attempt_model_segment [of "''gemini-pro''" world0 env_no_model "''hi''" "''KEY''"]
      first_attempt_model_segment [of "''Gemini-1.5-Flash''" world0 env_no_model "''hi''" "''KEY''"]
    by simp
qed


text \<open>
  C3. When the first response has status 404 and the (possibly rewritten) model name is
  not the stable fallback name, the call sends exactly one more request, to the stable
  fallback model, and returns what that retry returns: its extracted result when the
  retry succeeds. A status that is not a success and not 404 raises RemoteError after
  the one request.
\<close>

theorem retry_once_on_404:
  assumes cm: "cm = (if toLowerCase model \<noteq> STABLE_FALLBACK_MODEL
             then (if js_includes (toLowerCase model) ''pro''
                      \<and> \<not> js_includes (toLowerCase model) ''2.5''
                   then ''gemini-2.5-pro'' else model)
             else model)"
    and req1: "req1 = \<lparr>url = endpoint_of cm apiKey, prompt_text = prompt\<rparr>"
    and req2: "req2 = \<lparr>url = endpoint_of STABLE_FALLBACK_MODEL apiKey, prompt_text = prompt\<rparr>"
    and first: "remote e (sent w) req1 = Resolved r"
  shows "(cm \<noteq> STABLE_FALLBACK_MODEL \<and> status r = 404 \<longrightarrow>
            requests_since w (snd (queryGemini e model prompt apiKey w)) = [req1, req2]
          \<and> queryGemini e model prompt apiKey w =
              queryGemini e STABLE_FALLBACK_MODEL prompt apiKey
                (console_log (FallbackNotice model) (w\<lparr>sent := sent w @ [req1]\<rparr>))
          \<and> (\<forall>r2 data. remote e (sent w @ [req1]) req2 = Resolved r2 \<and> ok r2
                 \<and> JSON_parse e (body r2) = Some data \<longrightarrow>
               fst (queryGemini e model prompt apiKey w) =
                 Inr (if truthy (extract_text data) then extract_text data
                      else JStr no_text_placeholder)))
       \<and> (\<not> ok r \<and> status r \<noteq> 404 \<longrightarrow>
            fst (queryGemini e model prompt apiKey w) =
              Inl (RemoteError (status r) (statusText r) (body r))
          \<and> requests_since w (snd (queryGemini e model prompt apiKey w)) = [req1])"
proof -
  note s = sent_queryGemini [OF cm, of e prompt apiKey w]
  have reqs: "requests_since w (snd (queryGemini e model prompt apiKey w)) =
      req1 # (if status r = 404 \<and> cm \<noteq> STABLE_FALLBACK_MODEL then [req2] else [])"
    using first by (simp add: requests_since_append [OF s] req1 req2)
  have other: "fst (queryGemini e model prompt apiKey w) =
      Inl (RemoteError (status r) (statusText r) (body r))"
    if "\<not> ok r" "status r \<noteq> 404"
    using that first by (simp add: queryGemini_unfold [OF cm] Let_def req1)
  have retry: "queryGemini e model prompt apiKey w =
      queryGemini e STABLE_FALLBACK_MODEL prompt apiKey
        (console_log (FallbackNotice model) (w\<lparr>sent := sent w @ [req1]\<rparr>))"
    if "cm \<noteq> STABLE_FALLBACK_MODEL" "status r = 404"
    using that first by (simp add: queryGemini_unfold [OF cm] Let_def req1 ok_def)
  have success: "fst (queryGemini e model prompt apiKey w) =
      Inr (if truthy (extract_text data) then extract_text data else JStr no_text_placeholder)"
    if "cm \<noteq> STABLE_FALLBACK_MODEL" "status r = 404"
      and "remote e (sent w @ [req1]) req2 = Resolved r2" "ok r2"
      and "JSON_parse e (body r2) = Some data" for r2 data
    using that by (simp add: retry queryGemini_on_fallback Let_def req2)
  show ?thesis
    using reqs other retry success by auto
qed

theorem retry_once_on_404_witness:
  "requests_since world0 (snd (queryGemini env_stable_only ''gemini-1.5-flash'' ''hi'' ''KEY'' world0))
     = [\<lparr>url = endpoint_of ''gemini-1.5-flash'' ''KEY'', prompt_text = ''hi''\<rparr>,
        \<lparr>url = endpoint_of STABLE_FALLBACK_MODEL ''KEY'', prompt_text = ''hi''\<rparr>]
   \<and> fst (queryGemini env_stable_only ''gemini-1.5-flash'' ''hi'' ''KEY'' world0) = Inr (JStr ''Hello!'')
   \<and> fst (queryGemini env_unavailable ''gemini-1.5-flash'' ''hi'' ''KEY'' world0)
       = Inl (RemoteError 503 ''Service Unavailable'' [])
   \<and> requests_since world0 (snd (queryGemini env_unavailable ''gemini-1.5-flash'' ''hi'' ''KEY'' world0))
       = [\<lparr>url = endpoint_of ''gemini-1.5-flash'' ''KEY'', prompt_text = ''hi''\<rparr>]"
proof -
  let ?req1 = "\<lparr>url = endpoint_of ''gemini-1.5-flash'' ''KEY'', prompt_text = ''hi''\<rparr>"
  let ?req2 = "\<lparr>url = endpoint_of STABLE_FALLBACK_MODEL ''KEY'', prompt_text = ''hi''\<rparr>"
  have cm: "''gemini-1.5-flash'' =
      (if toLowerCase ''gemini-1.5-flash'' \<noteq> STABLE_FALLBACK_MODEL
       then (if js_includes (toLowerCase ''gemini-1.5-flash'') ''pro''
                \<and> \<not> js_includes (toLowerCase ''gemini-1.5-flash'') ''2.5''
             then ''gemini-2.5-pro'' else ''gemini-1.5-flash'')
       else ''gemini-1.5-flash'')"
    by (simp add: toLowerCase_def toLowerCase_unit_def)
  have first: "remote env_stable_only (sent world0) ?req1
      = Resolved \<lparr>status = 404, statusText = ''Not Found'', body = ''{}''\<rparr>"
    by (simp add: env_stable_only_def answer_not_found_def endpoint_of_def
          STABLE_FALLBACK_MODEL_def)
  have second: "remote env_stable_only (sent world0 @ [?req1]) ?req2
      = Resolved \<lparr>status = 200, statusText = ''OK'', body = example_body\<rparr>"
    by (simp add: env_stable_only_def answer_ok_def)
  have parsed: "JSON_parse env_stable_only
      (body \<lparr>status = 200, statusText = ''OK'', body = example_body\<rparr>) = Some example_data"
    by (simp add: env_stable_only_def example_parse_def)
  have got: "extract_text example_data = JStr ''Hello!''"
    by (simp add: extract_text_def example_data_def)
  have down: "remote env_unavailable (sent world0) ?req1
      = Resolved \<lparr>status = 503, statusText = ''Service Unavailable'', body = []\<rparr>"
    by (simp add: env_unavailable_def)
  have is404: "''gemini-1.5-flash'' \<noteq> STABLE_FALLBACK_MODEL
      \<and> status \<lparr>status = 404, statusText = ''Not Found'', body = ''{}''\<rparr> = 404"
    by (simp add: STABLE_FALLBACK_MODEL_def)
  have ok2: "ok \<lparr>status = 200, statusText = ''OK'', body = example_body\<rparr>"
    by (simp add: ok_def)
  have is503: "\<not> ok \<lparr>status = 503, statusText = ''Service Unavailable'', body = []\<rparr>
      \<and> status \<lparr>status = 503, statusText = ''Service Unavailable'', body = []\<rparr> \<noteq> 404"
    by (simp add: ok_def)
  note up = retry_once_on_404 [OF cm refl refl first]
  note dn = retry_once_on_404 [OF cm refl refl down]
  have A: "requests_since world0
      (snd (queryGemini env_stable_only ''gemini-1.5-flash'' ''hi'' ''KEY'' world0)) = [?req1, ?req2]"
    using up is404 by blast
  have "fst (queryGemini env_stable_only ''gemini-1.5-flash'' ''hi'' ''KEY'' world0) =
      Inr (if truthy (extract_text example_data) then extract_text example_data
           else JStr no_text_placeholder)"
    using up is404 second ok2 parsed by blast
  then have B: "fst (queryGemini env_stable_only ''gemini-1.5-flash'' ''hi'' ''KEY'' world0) =
      Inr (JStr ''Hello!'')"
    by (simp add: got)
  have C: "fst (queryGemini env_unavailable ''gemini-1.5-flash'' ''hi'' ''KEY'' world0)
       = Inl (RemoteError 503 ''Service Unavailable'' [])
     \<and> requests_since world0
         (snd (queryGemini env_unavailable ''gemini-1.5-flash'' ''hi'' ''KEY'' world0)) = [?req1]"
    using dn [THEN conjunct2, THEN mp, OF is503] by simp
  show ?thesis
    using A B C by simp
qed

text \<open>
  C4. The dispatcher is a total function: its one recursive call is on the stable
  fallback name, on which it does not call itself again. Every call sends one request or
  two, the call on the stable fallback model exactly one, and a 404 on the stable
  fallback model is a RemoteError with no further request.
\<close>

theorem at_most_two_attempts:
  "1 \<le> length (requests_since w (snd (queryGemini e model prompt apiKey w)))
   \<and> length (requests_since w (snd (queryGemini e model prompt apiKey w))) \<le> 2
   \<and> requests_since w (snd (queryGemini e STABLE_FALLBACK_MODEL prompt apiKey w)) =
       [\<lparr>url = endpoint_of STABLE_FALLBACK_MODEL apiKey, prompt_text = prompt\<rparr>]
   \<and> (\<forall>r. remote e (sent w)
             \<lparr>url = endpoint_of STABLE_FALLBACK_MODEL apiKey, prompt_text = prompt\<rparr> = Resolved r
           \<and> status r = 404 \<longrightarrow>
         queryGemini e STABLE_FALLBACK_MODEL prompt apiKey w =
           (Inl (RemoteError 404 (statusText r) (body r)),
            w\<lparr>sent := sent w
                 @ [\<lparr>url = endpoint_of STABLE_FALLBACK_MODEL apiKey, prompt_text = prompt\<rparr>]\<rparr>))"
proof -
  define cm where "cm = (if toLowerCase model \<noteq> STABLE_FALLBACK_MODEL
             then (if js_includes (toLowerCase model) ''pro''
                      \<and> \<not> js_includes (toLowerCase model) ''2.5''
                   then ''gemini-2.5-pro'' else model)
             else model)"
  note s = sent_queryGemini [OF cm_def, of e prompt apiKey w]
  have len: "1 \<le> length (requests_since w (snd (queryGemini e model prompt apiKey w)))"
            "length (requests_since w (snd (queryGemini e model prompt apiKey w))) \<le> 2"
    by (simp_all add: requests_since_append [OF s] split: fetch_outcome.splits)
  have one: "requests_since w (snd (queryGemini e STABLE_FALLBACK_MODEL prompt apiKey w)) =
       [\<lparr>url = endpoint_of STABLE_FALLBACK_MODEL apiKey, prompt_text = prompt\<rparr>]"
    by (simp add: requests_since_append [OF sent_on_fallback])
  have stop: "queryGemini e STABLE_FALLBACK_MODEL prompt apiKey w =
           (Inl (RemoteError 404 (statusText r) (body r)),
            w\<lparr>sent := sent w
                 @ [\<lparr>url = endpoint_of STABLE_FALLBACK_MODEL apiKey, prompt_text = prompt\<rparr>]\<rparr>)"
    if "remote e (sent w)
          \<lparr>url = endpoint_of STABLE_FALLBACK_MODEL apiKey, prompt_text = prompt\<rparr> = Resolved r"
       "status r = 404" for r
    using that by (simp add: queryGemini_on_fallback Let_def ok_def)
  show ?thesis
    using len one stop by blast
qed

theorem at_most_two_attempts_witness:
  "remote env_no_model (sent world0)
       \<lparr>url = endpoint_of STABLE_FALLBACK_MODEL ''KEY'', prompt_text = ''hi''\<rparr>
     = Resolved \<lparr>status = 404, statusText = ''Not Found'', body = ''{}''\<rparr>
   \<and> queryGemini env_no_model STABLE_FALLBACK_MODEL ''hi'' ''KEY'' world0 =
       (Inl (RemoteError 404 ''Not Found'' ''{}''),
        world0\<lparr>sent := [\<lparr>url = endpoint_of STABLE_FALLBACK_MODEL ''KEY'', prompt_text = ''hi''\<rparr>]\<rparr>)
   \<and> length (requests_since world0 (snd (queryGemini env_no_model ''gemini-pro'' ''hi'' ''KEY'' world0)))
       \<le> 2"
proof -
  have first: "remote env_no_model (sent world0)
       \<lparr>url = endpoint_of STABLE_FALLBACK_MODEL ''KEY'', prompt_text = ''hi''\<rparr>
     = Resolved \<lparr>status = 404, statusText = ''Not Found'', body = ''{}''\<rparr>"
    by (simp add: env_no_model_def answer_not_found_def)
  from at_most_two_attempts [of world0 env_no_model "''gemini-pro''" "''hi''" "''KEY''"] first
  show ?thesis
    by (simp add: world0_def)
qed

text \<open>
  C10. A model name that is the stable fallback name up to case, but not the name
  itself, is sent as it was given (the guard of the rewrite compares lower-cased names),
  and a 404 on it is followed by the retry on the stable fallback model (the guard of
  the retry compares the names as they are).
\<close>

theorem case_variant_of_fallback:
  assumes same: "toLowerCase model = STABLE_FALLBACK_MODEL"
    and differs: "model \<noteq> STABLE_FALLBACK_MODEL"
  shows "hd (requests_since w (snd (queryGemini e model prompt apiKey w))) =
           \<lparr>url = endpoint_of model apiKey, prompt_text = prompt\<rparr>
       \<and> (\<forall>r. remote e (sent w) \<lparr>url = endpoint_of model apiKey, prompt_text = prompt\<rparr>
                 = Resolved r \<and> status r = 404 \<longrightarrow>
            requests_since w (snd (queryGemini e model prompt apiKey w)) =
              [\<lparr>url = endpoint_of model apiKey, prompt_text = prompt\<rparr>,
               \<lparr>url = endpoint_of STABLE_FALLBACK_MODEL apiKey, prompt_text = prompt\<rparr>])"
proof -
  have cm: "model = (if toLowerCase model \<noteq> STABLE_FALLBACK_MODEL
             then (if js_includes (toLowerCase model) ''pro''
                      \<and> \<not> js_includes (toLowerCase model) ''2.5''
                   then ''gemini-2.5-pro'' else model)
             else model)"
    using same by simp
  note s = sent_queryGemini [OF cm, of e prompt apiKey w]
  show ?thesis
    using differs by (simp add: requests_since_append [OF s])
qed

theorem case_variant_of_fallback_witness:
  "toLowerCase ''Gemini-2.5-Flash'' = STABLE_FALLBACK_MODEL
   \<and> ''Gemini-2.5-Flash'' \<noteq> STABLE_FALLBACK_MODEL
   \<and> requests_since world0
       (snd (queryGemini env_stable_only ''Gemini-2.5-Flash'' ''hi'' ''KEY'' world0)) =
       [\<lparr>url = endpoint_of ''Gemini-2.5-Flash'' ''KEY'', prompt_text = ''hi''\<rparr>,
        \<lparr>url = endpoint_of STABLE_FALLBACK_MODEL ''KEY'', prompt_text = ''hi''\<rparr>]"
proof -
  have same: "toLowerCase ''Gemini-2.5-Flash'' = STABLE_FALLBACK_MODEL"
    by code_simp
  have differs: "''Gemini-2.5-Flash'' \<noteq> STABLE_FALLBACK_MODEL"
    by (simp add: STABLE_FALLBACK_MODEL_def)
  have first: "remote env_stable_only (sent world0)
       \<lparr>url = endpoint_of ''Gemini-2.5-Flash'' ''KEY'', prompt_text = ''hi''\<rparr>
     = Resolved \<lparr>status = 404, statusText = ''Not Found'', body = ''{}''\<rparr>"
    by (simp add: env_stable_only_def answer_not_found_def endpoint_of_def
          STABLE_FALLBACK_MODEL_def)
  from case_variant_of_fallback [OF same differs, of world0 env_stable_only "''hi''" "''KEY''"]
    first same differs
  show ?thesis
    by simp
qed


section \<open>The extraction path\<close>

lemma opt_member_nullish: "nullish v \<Longrightarrow> opt_member v k = JUndefined"
  by (auto simp: nullish_def)

lemma opt_first_nullish: "nullish v \<Longrightarrow> opt_first v = JUndefined"
  by (auto simp: nullish_def)

lemma nullish_falsy: "nullish v \<Longrightarrow> \<not> truthy v"
  by (auto simp: nullish_def)

lemma nullish_Undefined: "nullish JUndefined"
  by (simp add: nullish_def)

text \<open>A missing link anywhere leaves the end of the path missing.\<close>

lemma extract_text_missing:
  assumes "c = opt_member data ''candidates''" "c0 = opt_first c"
    "ct = opt_member c0 ''content''" "ps = opt_member ct ''parts''"
    "p0 = opt_first ps" "t = opt_member p0 ''text''"
    and "nullish c \<or> nullish c0 \<or> nullish ct \<or> nullish ps \<or> nullish p0 \<or> nullish t"
  shows "nullish (extract_text data)"
proof -
  have t: "extract_text data = t"
    using assms(1-6) by (simp add: extract_text_def)
  from assms(7) have "nullish t"
    using assms(1-6) nullish_Undefined
    by (metis opt_member_nullish opt_first_nullish)
  with t show ?thesis by simp
qed

lemma queryGemini_success:
  assumes cm: "cm = (if toLowerCase model \<noteq> STABLE_FALLBACK_MODEL
             then (if js_includes (toLowerCase model) ''pro''
                      \<and> \<not> js_includes (toLowerCase model) ''2.5''
                   then ''gemini-2.5-pro'' else model)
             else model)"
    and "remote e (sent w) \<lparr>url = endpoint_of cm apiKey, prompt_text = prompt\<rparr> = Resolved r"
    and "ok r"
  shows "fst (queryGemini e model prompt apiKey w) =
     (case JSON_parse e (body r) of
        None \<Rightarrow> Inl TypeError
      | Some data \<Rightarrow> Inr (if truthy (extract_text data) then extract_text data
                          else JStr no_text_placeholder))"
  using assms(2,3) by (simp add: queryGemini_unfold [OF cm] Let_def split: option.splits)

lemma queryGemini_themed_success:
  assumes "remote e (sent w) \<lparr>url = endpoint_of model apiKey, prompt_text = prompt\<rparr> = Resolved r"
    and "ok r"
  shows "fst (queryGemini_themed e model prompt apiKey w) =
     (case JSON_parse e (body r) of
        None \<Rightarrow> Inl SyntaxError
      | Some data \<Rightarrow> Inr (if truthy (extract_text data) then extract_text data
                          else JStr no_response))"
  using assms by (simp add: queryGemini_themed_def fetch_def Let_def split: option.splits)

text \<open>
  C6. On a success status and a body that parses, each command-line dispatcher returns
  its placeholder string, and raises nothing, when any link of the path (the
  candidates, the first of them, its content, the parts, the first of them, its text) is
  \<open>null\<close> or \<open>undefined\<close>; when the path ends in a non-empty string, that string is
  returned.
\<close>

theorem placeholder_on_missing_link:
  assumes cm: "cm = (if toLowerCase model \<noteq> STABLE_FALLBACK_MODEL
             then (if js_includes (toLowerCase model) ''pro''
                      \<and> \<not> js_includes (toLowerCase model) ''2.5''
                   then ''gemini-2.5-pro'' else model)
             else model)"
    and success: "ok r" "JSON_parse e (body r) = Some data"
    and path: "c = opt_member data ''candidates''" "c0 = opt_first c"
      "ct = opt_member c0 ''content''" "ps = opt_member ct ''parts''"
      "p0 = opt_first ps" "t = opt_member p0 ''text''"
  shows "(remote e (sent w) \<lparr>url = endpoint_of cm apiKey, prompt_text = prompt\<rparr> = Resolved r \<longrightarrow>
           (nullish c \<or> nullish c0 \<or> nullish ct \<or> nullish ps \<or> nullish p0 \<or> nullish t \<longrightarrow>
              fst (queryGemini e model prompt apiKey w) = Inr (JStr no_text_placeholder))
         \<and> (\<forall>s. t = JStr s \<and> s \<noteq> [] \<longrightarrow>
              fst (queryGemini e model prompt apiKey w) = Inr (JStr s)))
       \<and> (remote e (sent w) \<lparr>url = endpoint_of model apiKey, prompt_text = prompt\<rparr> = Resolved r \<longrightarrow>
           (nullish c \<or> nullish c0 \<or> nullish ct \<or> nullish ps \<or> nullish p0 \<or> nullish t \<longrightarrow>
              fst (queryGemini_themed e model prompt apiKey w) = Inr (JStr no_response))
         \<and> (\<forall>s. t = JStr s \<and> s \<noteq> [] \<longrightarrow>
              fst (queryGemini_themed e model prompt apiKey w) = Inr (JStr s)))"
proof -
  have t: "extract_text data = t"
    using path by (simp add: extract_text_def)
  have missing: "\<not> truthy (extract_text data)"
    if "nullish c \<or> nullish c0 \<or> nullish ct \<or> nullish ps \<or> nullish p0 \<or> nullish t"
    using extract_text_missing [OF path that] by (rule nullish_falsy)
  have present: "truthy (extract_text data)" if "t = JStr s" "s \<noteq> []" for s
    using that t by simp
  show ?thesis
    using missing present t
    by (auto simp: queryGemini_success [OF cm _ success(1)]
          queryGemini_themed_success [OF _ success(1)] success(2))
qed

theorem placeholder_on_missing_link_witness:
  "nullish (opt_member (JObj []) ''candidates'')
   \<and> fst (queryGemini env_empty STABLE_FALLBACK_MODEL ''hi'' ''KEY'' world0)
       = Inr (JStr no_text_placeholder)
   \<and> fst (queryGemini_themed env_empty STABLE_FALLBACK_MODEL ''hi'' ''KEY'' world0)
       = Inr (JStr no_response)
   \<and> fst (queryGemini env_ok STABLE_FALLBACK_MODEL ''hi'' ''KEY'' world0) = Inr (JStr ''Hello!'')
   \<and> fst (queryGemini_themed env_ok STABLE_FALLBACK_MODEL ''hi'' ''KEY'' world0)
       = Inr (JStr ''Hello!'')"
proof -
  let ?req = "\<lparr>url = endpoint_of STABLE_FALLBACK_MODEL ''KEY'', prompt_text = ''hi''\<rparr>"
  let ?empty = "\<lparr>status = 200, statusText = ''OK'', body = ''{}''\<rparr>"
  let ?full = "\<lparr>status = 200, statusText = ''OK'', body = example_body\<rparr>"
  have cm: "STABLE_FALLBACK_MODEL =
      (if toLowerCase STABLE_FALLBACK_MODEL \<noteq> STABLE_FALLBACK_MODEL
       then (if js_includes (toLowerCase STABLE_FALLBACK_MODEL) ''pro''
                \<and> \<not> js_includes (toLowerCase STABLE_FALLBACK_MODEL) ''2.5''
             then ''gemini-2.5-pro'' else STABLE_FALLBACK_MODEL)
       else STABLE_FALLBACK_MODEL)"
    by (simp add: toLowerCase_STABLE)
  have oks: "ok ?empty" "ok ?full"
    by (simp_all add: ok_def)
  have parse_empty: "JSON_parse env_empty (body ?empty) = Some (JObj [])"
    by (simp add: env_empty_def example_parse_def example_body_def)
  have parse_full: "JSON_parse env_ok (body ?full) = Some example_data"
    by (simp add: env_ok_def example_parse_def)
  have answers: "remote env_empty (sent world0) ?req = Resolved ?empty"
    "remote env_ok (sent world0) ?req = Resolved ?full"
    by (simp_all add: env_empty_def env_ok_def answer_ok_def)
  have gone: "nullish (opt_member (JObj []) ''candidates'')"
    by (simp add: nullish_def)
  have there: "opt_member (opt_first (opt_member (opt_member (opt_first
      (opt_member example_data ''candidates'')) ''content'') ''parts'')) ''text'' = JStr ''Hello!''"
    by (simp add: example_data_def)
  note miss = placeholder_on_missing_link
    [OF cm oks(1) parse_empty refl refl refl refl refl refl, of world0 "''KEY''" "''hi''"]
  note hit = placeholder_on_missing_link
    [OF cm oks(2) parse_full refl refl refl refl refl refl, of world0 "''KEY''" "''hi''"]
  have A: "fst (queryGemini env_empty STABLE_FALLBACK_MODEL ''hi'' ''KEY'' world0)
       = Inr (JStr no_text_placeholder)"
    using miss answers(1) gone by blast
  have B: "fst (queryGemini_themed env_empty STABLE_FALLBACK_MODEL ''hi'' ''KEY'' world0)
       = Inr (JStr no_response)"
    using miss answers(1) gone by blast
  have C: "fst (queryGemini env_ok STABLE_FALLBACK_MODEL ''hi'' ''KEY'' world0) = Inr (JStr ''Hello!'')"
    using hit answers(2) there by blast
  have D: "fst (queryGemini_themed env_ok STABLE_FALLBACK_MODEL ''hi'' ''KEY'' world0)
       = Inr (JStr ''Hello!'')"
    using hit answers(2) there by blast
  show ?thesis
    using gone A B C D by simp
qed

section \<open>A body that is not JSON\<close>

text \<open>
  Whatever the remote answers, the dispatcher with the fallback never throws the Error
  that carries the start of the body: on a success status with a body that does not
  parse it throws the TypeError of \<open>new new Error(...)\<close>.
\<close>

lemma queryGemini_on_fallback_no_ParseError:
  "fst (queryGemini e STABLE_FALLBACK_MODEL prompt apiKey w) \<noteq> Inl (ParseError s)"
  by (simp add: queryGemini_on_fallback Let_def split: fetch_outcome.splits option.splits)

lemma queryGemini_no_ParseError:
  "fst (queryGemini e model prompt apiKey w) \<noteq> Inl (ParseError s)"
proof -
  define cm where "cm = (if toLowerCase model \<noteq> STABLE_FALLBACK_MODEL
             then (if js_includes (toLowerCase model) ''pro''
                      \<and> \<not> js_includes (toLowerCase model) ''2.5''
                   then ''gemini-2.5-pro'' else model)
             else model)"
  show ?thesis
    by (simp add: queryGemini_unfold [OF cm_def] queryGemini_on_fallback_no_ParseError Let_def
          split: fetch_outcome.splits option.splits)
qed

text \<open>
  C5, on the code. The remote answers 200 with a page of HTML, which \<open>JSON.parse\<close>
  rejects. The dispatcher with the fallback throws a TypeError, not the Error with the
  first 100 code units of the body; the themed dispatcher lets the SyntaxError of
  \<open>JSON.parse\<close> through. Neither returns a value.
\<close>

theorem unparsable_body_thrown_error:
  "JSON_parse env_html ''<html>busy</html>'' = None
   \<and> fst (queryGemini env_html STABLE_FALLBACK_MODEL ''hi'' ''KEY'' world0) = Inl TypeError
   \<and> fst (queryGemini env_html STABLE_FALLBACK_MODEL ''hi'' ''KEY'' world0)
       \<noteq> Inl (ParseError (substring0 ''<html>busy</html>'' 100 @ ''...''))
   \<and> fst (queryGemini_themed env_html STABLE_FALLBACK_MODEL ''hi'' ''KEY'' world0)
       = Inl SyntaxError"
  by (simp add: queryGemini_on_fallback queryGemini_themed_def fetch_def Let_def env_html_def
        example_parse_def example_body_def ok_def)


section \<open>Persona lookup\<close>

lemma default_always_present: "''default'' \<in> dom (loadPersonalities user_file)"
  by (cases user_file) (auto simp: loadPersonalities_def DEFAULT_PERSONALITIES_def)

text \<open>
  A style that is neither a key of the merged object nor a member of
  \<open>Object.prototype\<close> gets the text of the default persona.
\<close>

lemma buildSystemPrompt_miss:
  assumes "style \<notin> dom personalities" "style \<notin> set Object_prototype_members"
    and "personalities ''default'' = Some d"
  shows "buildSystemPrompt style personalities = d @ additional_rules"
  using assms by (auto simp: buildSystemPrompt_def get_property_def Let_def)

text \<open>
  C7, on the code. The style \<open>constructor\<close> is not a key of the merged object (here
  the built-in personas alone), yet \<open>personalities["constructor"]\<close> finds the function
  \<open>Object\<close> that every plain object inherits, which is truthy: the prompt starts with
  the source text of that function and not with the text of the default persona.
\<close>

theorem inherited_member_taken_as_persona:
  "''constructor'' \<notin> dom (loadPersonalities None)
   \<and> loadPersonalities None ''default'' = Some ''You are a helpful, concise assistant. Prefer short, actionable answers with examples when relevant.''
   \<and> buildSystemPrompt ''constructor'' (loadPersonalities None)
       = ''function Object() { [native code] }'' @ additional_rules
   \<and> buildSystemPrompt ''constructor'' (loadPersonalities None)
       \<noteq> ''You are a helpful, concise assistant. Prefer short, actionable answers with examples when relevant.'' @ additional_rules"
  by (simp add: loadPersonalities_def DEFAULT_PERSONALITIES_def buildSystemPrompt_def
        get_property_def Object_prototype_members_def Let_def dom_def map_add_def)

section \<open>The context of the interactive loop\<close>

lemma on_lines_append:
  "on_lines d style long model apiKey ps (ls @ [line]) s =
     (let s' = on_lines d style long model apiKey ps ls s
      in if closed s' then s' else on_line d style long model apiKey ps line s')"
proof (induction ls arbitrary: s)
  case Nil
  then show ?case by simp
next
  case (Cons l ls)
  then show ?case by (simp add: Let_def)
qed

text \<open>No line changes the context: the handler assigns it the system prompt or nothing.\<close>

lemma ctx_on_line:
  "ctx s = buildSystemPrompt style ps \<Longrightarrow>
   ctx (on_line d style long model apiKey ps line s) = buildSystemPrompt style ps"
  by (simp add: on_line_def Let_def split: prod.splits sum.splits)

lemma ctx_on_lines:
  "ctx s = buildSystemPrompt style ps \<Longrightarrow>
   ctx (on_lines d style long model apiKey ps ls s) = buildSystemPrompt style ps"
  by (induction ls arbitrary: s) (simp_all add: ctx_on_line)

lemma on_line_clear:
  assumes "trim line = '':clear''"
  shows "on_line d style long model apiKey ps line s =
     s\<lparr>ctx := buildSystemPrompt style ps, wld := console_log ContextCleared (wld s)\<rparr>"
  using assms by (simp add: on_line_def)

lemma clear_on_lines:
  assumes "trim line = '':clear''"
  shows "ctx (on_lines d style long model apiKey ps (ls @ [line]) (chatMode_start style ps w))
           = buildSystemPrompt style ps
       \<and> sent (wld (on_lines d style long model apiKey ps (ls @ [line]) (chatMode_start style ps w)))
           = sent (wld (on_lines d style long model apiKey ps ls (chatMode_start style ps w)))"
proof -
  have start: "ctx (chatMode_start style ps w) = buildSystemPrompt style ps"
    by (simp add: chatMode_start_def)
  show ?thesis
    by (simp add: ctx_on_lines [OF start] on_lines_append on_line_clear [OF assms] Let_def)
qed

text \<open>
  C8. In both clients, after a line that is the clear command, wherever it comes in the
  input, the context is the system prompt built for the session's style, which is the
  context of the session's start; the command sends no request.
\<close>

theorem clear_restores_initial_context:
  assumes "trim line = '':clear''"
  shows "ctx (chatMode e style long model apiKey ps (ls @ [line]) w) = ctx (chatMode e style long model apiKey ps [] w)
       \<and> ctx (chatMode e style long model apiKey ps [] w) = buildSystemPrompt style ps
       \<and> sent (wld (chatMode e style long model apiKey ps (ls @ [line]) w))
           = sent (wld (chatMode e style long model apiKey ps ls w))
       \<and> ctx (chatMode_themed e style long model apiKey ps (ls @ [line]) w)
           = ctx (chatMode_themed e style long model apiKey ps [] w)
       \<and> ctx (chatMode_themed e style long model apiKey ps [] w) = buildSystemPrompt style ps
       \<and> sent (wld (chatMode_themed e style long model apiKey ps (ls @ [line]) w))
           = sent (wld (chatMode_themed e style long model apiKey ps ls w))"
  using clear_on_lines [OF assms, of "queryGemini e" style long model apiKey ps ls w]
    clear_on_lines [OF assms, of "queryGemini_themed e" style long model apiKey ps ls w]
  by (simp add: chatMode_def chatMode_themed_def chatMode_start_def)

theorem clear_restores_initial_context_witness:
  "trim '' :clear  '' = '':clear''
   \<and> ctx (chatMode env_ok ''hacker'' False STABLE_FALLBACK_MODEL ''KEY'' (loadPersonalities None)
         [''hello'', '' :clear  ''] world0)
       = buildSystemPrompt ''hacker'' (loadPersonalities None)
   \<and> sent (wld (chatMode env_ok ''hacker'' False STABLE_FALLBACK_MODEL ''KEY''
         (loadPersonalities None) [''hello'', '' :clear  ''] world0))
       = sent (wld (chatMode env_ok ''hacker'' False STABLE_FALLBACK_MODEL ''KEY''
           (loadPersonalities None) [''hello''] world0))"
proof -
  have cmd: "trim '' :clear  '' = '':clear''"
    by code_simp
  from clear_restores_initial_context [OF cmd, of env_ok "''hacker''" False STABLE_FALLBACK_MODEL
      "''KEY''" "loadPersonalities None" "[''hello'']" world0] cmd
  show ?thesis
    by simp
qed

text \<open>
  The prompt of a turn is the context, the line and the optional suffix; with the
  context fixed, it holds nothing of the turns before.
\<close>

lemma context_never_grows:
  "ctx (chatMode e style long model apiKey ps ls w) = buildSystemPrompt style ps"
  "ctx (chatMode_themed e style long model apiKey ps ls w) = buildSystemPrompt style ps"
  by (simp_all add: chatMode_def chatMode_themed_def chatMode_start_def ctx_on_lines)

text \<open>
  C1, on the code. Two turns, "hello" and then "what is recursion?", with a remote
  that answers "Hello!" to each. The second request carries the system prompt and the
  second turn only: the first turn is not in it (and no reply is).
\<close>

theorem second_prompt_without_first_turn:
  "map prompt_text (requests_since world0 (wld (chatMode env_ok ''default'' False
       STABLE_FALLBACK_MODEL ''KEY'' (loadPersonalities None)
       [''hello'', ''what is recursion?''] world0)))
     = [buildSystemPrompt ''default'' (loadPersonalities None) @ ''\<newline>User: hello'',
        buildSystemPrompt ''default'' (loadPersonalities None) @ ''\<newline>User: what is recursion?'']
   \<and> \<not> js_includes (buildSystemPrompt ''default'' (loadPersonalities None)
          @ ''\<newline>User: what is recursion?'') ''hello''
   \<and> \<not> js_includes (buildSystemPrompt ''default'' (loadPersonalities None)
          @ ''\<newline>User: what is recursion?'') ''Hello!''"
proof -
  have lines: "trim ''hello'' = ''hello''" "trim ''what is recursion?'' = ''what is recursion?''"
    by code_simp+
  have absent: "\<not> js_includes (buildSystemPrompt ''default'' (loadPersonalities None)
          @ ''\<newline>User: what is recursion?'') ''hello''"
     "\<not> js_includes (buildSystemPrompt ''default'' (loadPersonalities None)
          @ ''\<newline>User: what is recursion?'') ''Hello!''"
    by code_simp+
  have sends: "map prompt_text (requests_since world0 (wld (chatMode env_ok ''default'' False
       STABLE_FALLBACK_MODEL ''KEY'' (loadPersonalities None)
       [''hello'', ''what is recursion?''] world0)))
     = [buildSystemPrompt ''default'' (loadPersonalities None) @ ''\<newline>User: hello'',
        buildSystemPrompt ''default'' (loadPersonalities None) @ ''\<newline>User: what is recursion?'']"
    by (simp add: chatMode_def chatMode_start_def on_line_def lines Let_def
          queryGemini_on_fallback env_ok_def answer_ok_def ok_def example_parse_def
          requests_since_def world0_def console_log_def logLine_def)
  show ?thesis
    using sends absent by simp
qed

section \<open>The save at shutdown\<close>

text \<open>No submit and no keystroke changes what the registered handler will save.\<close>

lemma exit_messages_setInput: "exit_messages (setInput v ui) = exit_messages ui"
  by (simp add: setInput_def)

lemma exit_messages_handleSubmit:
  "exit_messages (fst (handleSubmit e k (ui, w))) = exit_messages ui"
  by (simp add: handleSubmit_def Let_def split: prod.splits sum.splits)

text \<open>
  A second save of the same list at the same millisecond leaves the files as the first
  did; at another millisecond it writes a second file with the same content.
\<close>

lemma saveLog_twice:
  "saveLog msgs now (saveLog msgs now files) = saveLog msgs now files"
  "saveLog msgs later (saveLog msgs now files) later = Some msgs"
  "saveLog msgs later (saveLog msgs now files) now = Some msgs"
  by (simp_all add: saveLog_def)

text \<open>
  C9, on the code. One exchange ("hi", answered "Hello!") and then the exit: the list on
  the screen has both messages, and the file that the exit handler writes is empty.
\<close>

theorem exit_save_writes_no_message:
  "messages (fst (handleSubmit env_ok ''KEY'' (setInput ''hi'' ChatUI_mount, world0)))
     = [\<lparr>role = ''user'', content = JStr ''hi''\<rparr>,
        \<lparr>role = ''assistant'', content = JStr ''Hello!''\<rparr>]
   \<and> handleExit (fst (handleSubmit env_ok ''KEY'' (setInput ''hi'' ChatUI_mount, world0)))
        1700000000000 Map.empty 1700000000000 = Some []"
proof -
  have typed: "trim ''hi'' = ''hi''"
    by code_simp
  show ?thesis
    by (simp add: handleSubmit_def setInput_def ChatUI_mount_def typed Let_def
          queryGemini_ui_def fetch_def env_ok_def answer_ok_def example_parse_def
          example_data_def extract_text_def handleExit_def saveLog_def)
qed

end
